theory Spec2Isabelle
  imports Main
begin

section \<open>Python values and the primitives the code applies to them\<close>

text \<open>
  The values that travel through \<^verbatim>\<open>vispy/app/canvas.py\<close> as geometry tuples and event
  arguments: \<^verbatim>\<open>None\<close>, booleans, (unbounded) integers, tuples and lists of such values, and
  references to plain objects (native widgets, native events, the backend itself), which
  are known by their identity only. Strings occur as titles, event types and keyword
  names and are kept as \<open>string\<close>. Floating point numbers are not modelled.
\<close>

datatype pyval =
    PNone
  | PBool bool
  | PInt int
  | PTuple "pyval list"
  | PList "pyval list"
  | PObj nat

text \<open>
  The exceptions that can leave the code. \<open>AttributeError t a\<close> stands for
  \<^verbatim>\<open>'t' object has no attribute 'a'\<close>; \<open>ValueError\<close> carries its message, the texts of the
  interpreter's own \<open>TypeError\<close> and \<open>IndexError\<close> are not modelled. \<open>BackendError\<close> is
  any exception of a toolkit.
\<close>

datatype error =
    ValueError string
  | TypeError
  | IndexError
  | AttributeError string string
  | NotImplementedError
  | BackendError string

definition bindE :: "error + 'a \<Rightarrow> ('a \<Rightarrow> error + 'b) \<Rightarrow> error + 'b" where
  "bindE m f = (case m of Inl e \<Rightarrow> Inl e | Inr a \<Rightarrow> f a)"

text \<open>
  Python's \<^verbatim>\<open>==\<close>: \<^verbatim>\<open>True == 1\<close> and \<^verbatim>\<open>False == 0\<close>, sequences of one kind are compared
  element by element, a tuple never equals a list, plain objects are equal when identical.
\<close>

fun py_eq :: "pyval \<Rightarrow> pyval \<Rightarrow> bool"
  and py_eq_list :: "pyval list \<Rightarrow> pyval list \<Rightarrow> bool" where
  "py_eq PNone PNone = True"
| "py_eq (PBool a) (PBool b) = (a = b)"
| "py_eq (PBool a) (PInt b) = ((if a then 1 else 0) = b)"
| "py_eq (PInt a) (PBool b) = (a = (if b then 1 else 0))"
| "py_eq (PInt a) (PInt b) = (a = b)"
| "py_eq (PTuple xs) (PTuple ys) = py_eq_list xs ys"
| "py_eq (PList xs) (PList ys) = py_eq_list xs ys"
| "py_eq (PObj a) (PObj b) = (a = b)"
| "py_eq _ _ = False"
| "py_eq_list [] [] = True"
| "py_eq_list (x # xs) (y # ys) = (py_eq x y \<and> py_eq_list xs ys)"
| "py_eq_list _ _ = False"

text \<open>\<^verbatim>\<open>a != b\<close>\<close>

definition py_ne :: "pyval \<Rightarrow> pyval \<Rightarrow> bool" where
  "py_ne a b = (\<not> py_eq a b)"

text \<open>\<^verbatim>\<open>len(v)\<close>\<close>

fun py_len :: "pyval \<Rightarrow> error + nat" where
  "py_len (PTuple xs) = Inr (length xs)"
| "py_len (PList xs) = Inr (length xs)"
| "py_len _ = Inl TypeError"

text \<open>
  \<^verbatim>\<open>xs[lo:]\<close> (\<open>hi = None\<close>) and \<^verbatim>\<open>xs[lo:hi]\<close> for indices that are not negative: a slice
  never fails on a sequence, it is cut at the sequence's end.
\<close>

definition slice :: "nat \<Rightarrow> nat option \<Rightarrow> 'a list \<Rightarrow> 'a list" where
  "slice lo hi xs = (case hi of None \<Rightarrow> drop lo xs | Some h \<Rightarrow> drop lo (take h xs))"

fun py_getslice :: "pyval \<Rightarrow> nat \<Rightarrow> nat option \<Rightarrow> error + pyval" where
  "py_getslice (PTuple xs) lo hi = Inr (PTuple (slice lo hi xs))"
| "py_getslice (PList xs) lo hi = Inr (PList (slice lo hi xs))"
| "py_getslice _ lo hi = Inl TypeError"

text \<open>\<^verbatim>\<open>v[i]\<close> for an index that is not negative\<close>

fun py_getitem :: "pyval \<Rightarrow> nat \<Rightarrow> error + pyval" where
  "py_getitem (PTuple xs) i = (if i < length xs then Inr (xs ! i) else Inl IndexError)"
| "py_getitem (PList xs) i = (if i < length xs then Inr (xs ! i) else Inl IndexError)"
| "py_getitem _ i = Inl TypeError"

text \<open>\<^verbatim>\<open>x in v\<close>: some element is \<^verbatim>\<open>x\<close> or equals it\<close>

fun py_contains :: "pyval \<Rightarrow> pyval \<Rightarrow> error + bool" where
  "py_contains x (PTuple xs) = Inr (list_ex (py_eq x) xs)"
| "py_contains x (PList xs) = Inr (list_ex (py_eq x) xs)"
| "py_contains x _ = Inl TypeError"

text \<open>The elements of \<^verbatim>\<open>*v\<close> in a call, and \<^verbatim>\<open>tuple(v)\<close>\<close>

fun py_unpack :: "pyval \<Rightarrow> error + pyval list" where
  "py_unpack (PTuple xs) = Inr xs"
| "py_unpack (PList xs) = Inr xs"
| "py_unpack _ = Inl TypeError"

definition py_tuple :: "pyval \<Rightarrow> error + pyval" where
  "py_tuple v = bindE (py_unpack v) (\<lambda>xs. Inr (PTuple xs))"

text \<open>\<^verbatim>\<open>int(v)\<close>\<close>

fun py_int :: "pyval \<Rightarrow> error + int" where
  "py_int (PBool b) = Inr (if b then 1 else 0)"
| "py_int (PInt n) = Inr n"
| "py_int _ = Inl TypeError"

text \<open>The truth value of \<^verbatim>\<open>v\<close>, as \<^verbatim>\<open>v or ()\<close> tests it\<close>

fun py_truth :: "pyval \<Rightarrow> bool" where
  "py_truth PNone = False"
| "py_truth (PBool b) = b"
| "py_truth (PInt n) = (n \<noteq> 0)"
| "py_truth (PTuple xs) = (xs \<noteq> [])"
| "py_truth (PList xs) = (xs \<noteq> [])"
| "py_truth (PObj i) = True"


section \<open>The backend as the Canvas sees it\<close>

text \<open>One constructor for each method of the backend contract, with its arguments.\<close>

datatype call =
    Call_set_current
  | Call_swap_buffers
  | Call_set_title string
  | Call_set_size pyval pyval
  | Call_set_location pyval pyval
  | Call_set_visible pyval
  | Call_update
  | Call_close
  | Call_get_geometry
  | Call_get_native_canvas

fun method_name :: "call \<Rightarrow> string" where
  "method_name Call_set_current = ''_vispy_set_current''"
| "method_name Call_swap_buffers = ''_vispy_swap_buffers''"
| "method_name (Call_set_title t) = ''_vispy_set_title''"
| "method_name (Call_set_size w h) = ''_vispy_set_size''"
| "method_name (Call_set_location x y) = ''_vispy_set_location''"
| "method_name (Call_set_visible v) = ''_vispy_set_visible''"
| "method_name Call_update = ''_vispy_update''"
| "method_name Call_close = ''_vispy_close''"
| "method_name Call_get_geometry = ''_vispy_get_geometry''"
| "method_name Call_get_native_canvas = ''_vispy_get_native_canvas''"

text \<open>
  A backend object is an instance of some subclass of \<open>CanvasBackend\<close>, written for one
  toolkit: its state \<open>bstate\<close> and its methods \<open>bmeth\<close>. A method either returns a value
  or raises, and in both cases leaves a new state behind. A method touches the state of
  its own object only (it does not assign to the private attributes of the Canvas).
\<close>

record 's backend =
  bstate :: 's
  bmeth :: "call \<Rightarrow> 's \<Rightarrow> (error + pyval) \<times> 's"


section \<open>class CanvasBackend: the defaults\<close>

record CanvasBackend =
  ident :: nat
  vispy_canvas :: pyval

text \<open>\<^verbatim>\<open>__init__(self, vispy_canvas, *args, **kwargs)\<close>; \<open>i\<close> is the identity of the new object.\<close>

definition CanvasBackend_init ::
  "nat \<Rightarrow> pyval \<Rightarrow> pyval list \<Rightarrow> (string \<times> pyval) list \<Rightarrow> CanvasBackend" where
  "CanvasBackend_init i canvas args kwargs = \<lparr>ident = i, vispy_canvas = canvas\<rparr>"

definition vispy_set_current :: "CanvasBackend \<Rightarrow> error + pyval" where
  "vispy_set_current self = Inl NotImplementedError"

definition vispy_swap_buffers :: "CanvasBackend \<Rightarrow> error + pyval" where
  "vispy_swap_buffers self = Inl NotImplementedError"

definition vispy_set_title :: "CanvasBackend \<Rightarrow> string \<Rightarrow> error + pyval" where
  "vispy_set_title self title = Inl NotImplementedError"

definition vispy_set_size :: "CanvasBackend \<Rightarrow> pyval \<Rightarrow> pyval \<Rightarrow> error + pyval" where
  "vispy_set_size self w h = Inl NotImplementedError"

definition vispy_set_location :: "CanvasBackend \<Rightarrow> pyval \<Rightarrow> pyval \<Rightarrow> error + pyval" where
  "vispy_set_location self x y = Inl NotImplementedError"

definition vispy_set_visible :: "CanvasBackend \<Rightarrow> pyval \<Rightarrow> error + pyval" where
  "vispy_set_visible self visible = Inl NotImplementedError"

definition vispy_update :: "CanvasBackend \<Rightarrow> error + pyval" where
  "vispy_update self = Inl NotImplementedError"

definition vispy_close :: "CanvasBackend \<Rightarrow> error + pyval" where
  "vispy_close self = Inl NotImplementedError"

definition vispy_get_geometry :: "CanvasBackend \<Rightarrow> error + pyval" where
  "vispy_get_geometry self = Inl NotImplementedError"

definition vispy_get_native_canvas :: "CanvasBackend \<Rightarrow> error + pyval" where
  "vispy_get_native_canvas self = Inr (PObj (ident self))"

text \<open>Method lookup on an instance of \<open>CanvasBackend\<close> itself; no default assigns to \<open>self\<close>.\<close>

fun CanvasBackend_meth :: "call \<Rightarrow> CanvasBackend \<Rightarrow> (error + pyval) \<times> CanvasBackend" where
  "CanvasBackend_meth Call_set_current self = (vispy_set_current self, self)"
| "CanvasBackend_meth Call_swap_buffers self = (vispy_swap_buffers self, self)"
| "CanvasBackend_meth (Call_set_title t) self = (vispy_set_title self t, self)"
| "CanvasBackend_meth (Call_set_size w h) self = (vispy_set_size self w h, self)"
| "CanvasBackend_meth (Call_set_location x y) self = (vispy_set_location self x y, self)"
| "CanvasBackend_meth (Call_set_visible v) self = (vispy_set_visible self v, self)"
| "CanvasBackend_meth Call_update self = (vispy_update self, self)"
| "CanvasBackend_meth Call_close self = (vispy_close self, self)"
| "CanvasBackend_meth Call_get_geometry self = (vispy_get_geometry self, self)"
| "CanvasBackend_meth Call_get_native_canvas self = (vispy_get_native_canvas self, self)"

definition CanvasBackend_object :: "CanvasBackend \<Rightarrow> CanvasBackend backend" where
  "CanvasBackend_object self = \<lparr>bstate = self, bmeth = CanvasBackend_meth\<rparr>"


section \<open>The Application, as far as the Canvas uses it\<close>

text \<open>
  The application object belongs to another module; the Canvas calls \<^verbatim>\<open>use()\<close>, reads the
  property \<^verbatim>\<open>native\<close> and instantiates \<^verbatim>\<open>backend_module.CanvasBackend\<close>. Each of them may
  raise and may change the application's state \<open>astate\<close>. The constructor of the backend
  class receives the positional and the keyword arguments the Canvas was created with
  (the reference to the Canvas itself, its first argument, is left out of the model).
\<close>

record ('a, 's) Application =
  astate :: 'a
  use :: "'a \<Rightarrow> (error + pyval) \<times> 'a"
  app_native :: "'a \<Rightarrow> (error + pyval) \<times> 'a"
  backend_module_CanvasBackend ::
    "pyval list \<Rightarrow> (string \<times> pyval) list \<Rightarrow> 'a \<Rightarrow> (error + 's backend) \<times> 'a"


section \<open>class Canvas\<close>

datatype event_class = Event_class | ResizeEvent_class | PaintEvent_class
  | MouseEvent_class | KeyEvent_class

text \<open>
  The attributes \<^verbatim>\<open>events\<close>, \<^verbatim>\<open>_args\<close>, \<^verbatim>\<open>_kwargs\<close>, \<^verbatim>\<open>_backend\<close>, \<^verbatim>\<open>_title\<close> and \<^verbatim>\<open>_app\<close>.
  \<^verbatim>\<open>_args\<close> and \<^verbatim>\<open>_kwargs\<close> are \<open>None\<close> once \<^verbatim>\<open>del\<close> has removed them, \<^verbatim>\<open>_backend\<close> is \<open>None\<close>
  while it holds Python's \<^verbatim>\<open>None\<close>. Two fields are not in the code and only observe it:
  \<open>calls\<close> lists the backend methods the Canvas has called, in order, and \<open>instantiated\<close>
  counts the calls of the backend class's constructor.
\<close>

record ('a, 's) Canvas =
  events :: "(string \<times> event_class) list"
  canvas_args :: "pyval list option"
  canvas_kwargs :: "(string \<times> pyval) list option"
  canvas_backend :: "'s backend option"
  canvas_title :: string
  canvas_app :: "('a, 's) Application"
  calls :: "call list"
  instantiated :: nat

definition EmitterGroup :: "(string \<times> event_class) list" where
  "EmitterGroup =
     [(''initialize'', Event_class), (''resize'', ResizeEvent_class),
      (''paint'', PaintEvent_class), (''mouse_press'', MouseEvent_class),
      (''mouse_release'', MouseEvent_class), (''mouse_move'', MouseEvent_class),
      (''mouse_wheel'', MouseEvent_class), (''key_press'', KeyEvent_class),
      (''key_release'', KeyEvent_class), (''stylus'', Event_class),
      (''touch'', Event_class), (''close'', Event_class)]"

text \<open>Dropping the value a call returns.\<close>

definition discard :: "(error + 'r) \<times> 'c \<Rightarrow> (error + unit) \<times> 'c" where
  "discard p = (case p of (Inl e, c) \<Rightarrow> (Inl e, c) | (Inr _, c) \<Rightarrow> (Inr (), c))"

text \<open>
  \<^verbatim>\<open>create_widget(self)\<close>. Reading \<^verbatim>\<open>self._args\<close> after it was deleted would be an
  \<open>AttributeError\<close>.
\<close>

definition create_widget :: "('a, 's) Canvas \<Rightarrow> (error + unit) \<times> ('a, 's) Canvas" where
  "create_widget self =
     (case canvas_backend self of
        Some b \<Rightarrow> (Inr (), self)
      | None \<Rightarrow>
          let app = canvas_app self in
          (case use app (astate app) of
             (Inl e, a1) \<Rightarrow> (Inl e, self\<lparr>canvas_app := app\<lparr>astate := a1\<rparr>\<rparr>)
           | (Inr _, a1) \<Rightarrow>
               (case app_native app a1 of
                  (Inl e, a2) \<Rightarrow> (Inl e, self\<lparr>canvas_app := app\<lparr>astate := a2\<rparr>\<rparr>)
                | (Inr _, a2) \<Rightarrow>
                    (case canvas_args self of
                       None \<Rightarrow> (Inl (AttributeError ''Canvas'' ''_args''),
                                 self\<lparr>canvas_app := app\<lparr>astate := a2\<rparr>\<rparr>)
                     | Some args \<Rightarrow>
                         (case canvas_kwargs self of
                            None \<Rightarrow> (Inl (AttributeError ''Canvas'' ''_kwargs''),
                                      self\<lparr>canvas_app := app\<lparr>astate := a2\<rparr>\<rparr>)
                          | Some kwargs \<Rightarrow>
                              (case backend_module_CanvasBackend app args kwargs a2 of
                                 (Inl e, a3) \<Rightarrow>
                                   (Inl e, self\<lparr>canvas_app := app\<lparr>astate := a3\<rparr>,
                                                instantiated := Suc (instantiated self)\<rparr>)
                               | (Inr b, a3) \<Rightarrow>
                                   (Inr (), self\<lparr>canvas_backend := Some b,
                                                 canvas_args := None,
                                                 canvas_kwargs := None,
                                                 canvas_app := app\<lparr>astate := a3\<rparr>,
                                                 instantiated := Suc (instantiated self)\<rparr>)))))))"

text \<open>
  \<^verbatim>\<open>__init__(self, *args, **kwargs)\<close>. The two special keywords are parameters of their own
  here (\<open>None\<close> when the caller does not give them) and \<open>kwargs\<close> holds the other keyword
  arguments: \<^verbatim>\<open>kwargs.pop\<close> removes \<^verbatim>\<open>'app'\<close> and \<^verbatim>\<open>'create_widget'\<close> from the very dictionary
  that \<^verbatim>\<open>self._kwargs\<close> refers to. \<open>default_app\<close> is \<^verbatim>\<open>vispy.app.default_app\<close>. When
  \<^verbatim>\<open>create_widget\<close> raises, so does the constructor and there is no Canvas.
\<close>

definition Canvas_init ::
  "('a, 's) Application \<Rightarrow> pyval list \<Rightarrow> ('a, 's) Application option \<Rightarrow> pyval option \<Rightarrow>
   (string \<times> pyval) list \<Rightarrow> error + ('a, 's) Canvas" where
  "Canvas_init default_app args app create_widget_kw kwargs =
     (let self = \<lparr>events = EmitterGroup,
                  canvas_args = Some args,
                  canvas_kwargs = Some kwargs,
                  canvas_backend = None,
                  canvas_title = [],
                  canvas_app = (case app of None \<Rightarrow> default_app | Some a \<Rightarrow> a),
                  calls = [],
                  instantiated = 0\<rparr>
      in if py_truth (case create_widget_kw of None \<Rightarrow> PBool True | Some v \<Rightarrow> v)
         then (case create_widget self of
                 (Inl e, self') \<Rightarrow> Inl e
               | (Inr _, self') \<Rightarrow> Inr self')
         else Inr self)"

text \<open>The property \<^verbatim>\<open>app\<close>.\<close>

definition app_get :: "('a, 's) Canvas \<Rightarrow> ('a, 's) Application" where
  "app_get self = canvas_app self"

text \<open>
  Calling a method of a backend object: the call is recorded, the backend keeps the
  state its method leaves behind.
\<close>

definition invoke ::
  "'s backend \<Rightarrow> call \<Rightarrow> ('a, 's) Canvas \<Rightarrow> (error + pyval) \<times> ('a, 's) Canvas" where
  "invoke b c self =
     (case bmeth b c (bstate b) of
        (r, s') \<Rightarrow> (r, self\<lparr>canvas_backend := Some (b\<lparr>bstate := s'\<rparr>),
                           calls := calls self @ [c]\<rparr>))"

text \<open>
  \<^verbatim>\<open>self._backend._vispy_xxx(...)\<close> with arguments that are already values: while
  \<^verbatim>\<open>self._backend\<close> is \<^verbatim>\<open>None\<close> the attribute lookup raises.
\<close>

definition backend_call ::
  "call \<Rightarrow> ('a, 's) Canvas \<Rightarrow> (error + pyval) \<times> ('a, 's) Canvas" where
  "backend_call c self =
     (case canvas_backend self of
        None \<Rightarrow> (Inl (AttributeError ''NoneType'' (method_name c)), self)
      | Some b \<Rightarrow> invoke b c self)"

text \<open>The property \<^verbatim>\<open>native\<close>.\<close>

definition native_get :: "('a, 's) Canvas \<Rightarrow> (error + pyval) \<times> ('a, 's) Canvas" where
  "native_get self = backend_call Call_get_native_canvas self"

text \<open>The property \<^verbatim>\<open>geometry\<close>: the getter.\<close>

definition geometry_get :: "('a, 's) Canvas \<Rightarrow> (error + pyval) \<times> ('a, 's) Canvas" where
  "geometry_get self = backend_call Call_get_geometry self"

text \<open>\<^verbatim>\<open>args[:2] != cur[:2] and not None in args[:2]\<close>\<close>

definition location_test :: "pyval \<Rightarrow> pyval \<Rightarrow> error + bool" where
  "location_test args cur =
     bindE (py_getslice args 0 (Some 2)) (\<lambda>a.
     bindE (py_getslice cur 0 (Some 2)) (\<lambda>c.
       if py_ne a c then bindE (py_contains PNone a) (\<lambda>m. Inr (\<not> m)) else Inr False))"

text \<open>\<^verbatim>\<open>args[2:] != cur[2:] and not None in args[2:]\<close>\<close>

definition size_test :: "pyval \<Rightarrow> pyval \<Rightarrow> error + bool" where
  "size_test args cur =
     bindE (py_getslice args 2 None) (\<lambda>a.
     bindE (py_getslice cur 2 None) (\<lambda>c.
       if py_ne a c then bindE (py_contains PNone a) (\<lambda>m. Inr (\<not> m)) else Inr False))"

text \<open>
  \<^verbatim>\<open>self._backend.m(args[i], args[j])\<close>: the method is looked up first, then the two
  arguments are read, then the call is made.
\<close>

definition call_items ::
  "(pyval \<Rightarrow> pyval \<Rightarrow> call) \<Rightarrow> string \<Rightarrow> pyval \<Rightarrow> nat \<Rightarrow> nat \<Rightarrow> ('a, 's) Canvas \<Rightarrow>
   (error + pyval) \<times> ('a, 's) Canvas" where
  "call_items m name args i j self =
     (case canvas_backend self of
        None \<Rightarrow> (Inl (AttributeError ''NoneType'' name), self)
      | Some b \<Rightarrow>
          (case py_getitem args i of
             Inl e \<Rightarrow> (Inl e, self)
           | Inr x \<Rightarrow>
               (case py_getitem args j of
                  Inl e \<Rightarrow> (Inl e, self)
                | Inr y \<Rightarrow> invoke b (m x y) self)))"

text \<open>
  The property \<^verbatim>\<open>geometry\<close>: the setter. In the branch for two values the method is
  looked up, then \<^verbatim>\<open>*args\<close> is unpacked into its two parameters.
\<close>

definition geometry_set ::
  "pyval \<Rightarrow> ('a, 's) Canvas \<Rightarrow> (error + unit) \<times> ('a, 's) Canvas" where
  "geometry_set args self =
     (case py_len args of
        Inl e \<Rightarrow> (Inl e, self)
      | Inr n \<Rightarrow>
          if n = 2 then
            (case canvas_backend self of
               None \<Rightarrow> (Inl (AttributeError ''NoneType'' ''_vispy_set_location''), self)
             | Some b \<Rightarrow>
                 (case py_unpack args of
                    Inl e \<Rightarrow> (Inl e, self)
                  | Inr [x, y] \<Rightarrow> discard (invoke b (Call_set_location x y) self)
                  | Inr _ \<Rightarrow> (Inl TypeError, self)))
          else if n = 4 then
            (case backend_call Call_get_geometry self of
               (Inl e, s1) \<Rightarrow> (Inl e, s1)
             | (Inr cur, s1) \<Rightarrow>
                 (case location_test args cur of
                    Inl e \<Rightarrow> (Inl e, s1)
                  | Inr mv \<Rightarrow>
                      (case (if mv
                             then call_items Call_set_location ''_vispy_set_location''
                                    args 0 1 s1
                             else (Inr PNone, s1)) of
                         (Inl e, s2) \<Rightarrow> (Inl e, s2)
                       | (Inr _, s2) \<Rightarrow>
                           (case size_test args cur of
                              Inl e \<Rightarrow> (Inl e, s2)
                            | Inr rs \<Rightarrow>
                                if rs
                                then discard (call_items Call_set_size ''_vispy_set_size''
                                                args 2 3 s2)
                                else (Inr (), s2)))))
          else (Inl (ValueError ''Setting geometry requires 2 or 4 values.''), self))"

text \<open>The property \<^verbatim>\<open>title\<close>: getter and setter.\<close>

definition title_get :: "('a, 's) Canvas \<Rightarrow> string" where
  "title_get self = canvas_title self"

definition title_set :: "string \<Rightarrow> ('a, 's) Canvas \<Rightarrow> (error + unit) \<times> ('a, 's) Canvas" where
  "title_set title self =
     (let self1 = self\<lparr>canvas_title := title\<rparr>
      in discard (backend_call (Call_set_title title) self1))"

text \<open>
  The methods \<^verbatim>\<open>show(self, visible=True)\<close> (\<open>None\<close> is the call without the argument),
  \<^verbatim>\<open>update(self)\<close> and \<^verbatim>\<open>close(self)\<close>; their names carry the class's name here.
\<close>

definition Canvas_show :: "pyval option \<Rightarrow> ('a, 's) Canvas \<Rightarrow> (error + pyval) \<times> ('a, 's) Canvas" where
  "Canvas_show visible self =
     backend_call (Call_set_visible (case visible of None \<Rightarrow> PBool True | Some v \<Rightarrow> v)) self"

definition Canvas_update :: "('a, 's) Canvas \<Rightarrow> (error + pyval) \<times> ('a, 's) Canvas" where
  "Canvas_update self = backend_call Call_update self"

definition Canvas_close :: "('a, 's) Canvas \<Rightarrow> (error + unit) \<times> ('a, 's) Canvas" where
  "Canvas_close self = discard (backend_call Call_close self)"

text \<open>\<^verbatim>\<open>create_widget()\<close> called \<open>n\<close> times in a row; a call that raises ends the row.\<close>

fun create_widget_times ::
  "nat \<Rightarrow> ('a, 's) Canvas \<Rightarrow> (error + unit) \<times> ('a, 's) Canvas" where
  "create_widget_times 0 self = (Inr (), self)"
| "create_widget_times (Suc n) self =
     (case create_widget self of
        (Inl e, self') \<Rightarrow> (Inl e, self')
      | (Inr _, self') \<Rightarrow> create_widget_times n self')"

text \<open>
  What a caller can do with one Canvas, and the Canvas after a sequence of such
  operations. The caller goes on after an operation that raised: the Canvas is then in
  the state the operation had reached.
\<close>

datatype op =
    Op_create_widget
  | Op_native
  | Op_geometry_get
  | Op_geometry_set pyval
  | Op_title_get
  | Op_title_set string
  | Op_show "pyval option"
  | Op_update
  | Op_close

fun apply_op :: "op \<Rightarrow> ('a, 's) Canvas \<Rightarrow> ('a, 's) Canvas" where
  "apply_op Op_create_widget self = snd (create_widget self)"
| "apply_op Op_native self = snd (native_get self)"
| "apply_op Op_geometry_get self = snd (geometry_get self)"
| "apply_op (Op_geometry_set args) self = snd (geometry_set args self)"
| "apply_op Op_title_get self = self"
| "apply_op (Op_title_set t) self = snd (title_set t self)"
| "apply_op (Op_show v) self = snd (Canvas_show v self)"
| "apply_op Op_update self = snd (Canvas_update self)"
| "apply_op Op_close self = snd (Canvas_close self)"

fun run :: "op list \<Rightarrow> ('a, 's) Canvas \<Rightarrow> ('a, 's) Canvas" where
  "run [] self = self"
| "run (x # ops) self = run ops (apply_op x self)"

text \<open>The title most recently passed to the setter in \<open>ops\<close>; \<open>t\<close> when there is none.\<close>

fun last_title :: "op list \<Rightarrow> string \<Rightarrow> string" where
  "last_title [] t = t"
| "last_title (Op_title_set t' # ops) t = last_title ops t'"
| "last_title (x # ops) t = last_title ops t"


section \<open>The event classes\<close>

text \<open>
  Modelled from the spec: \<^verbatim>\<open>Event.__init__(self, type, **kwds)\<close> of \<^verbatim>\<open>vispy.event\<close>, which is
  not in this file. An event has its kind, a string, and the extra named fields it was
  constructed with, readable as attributes.
\<close>

record Event =
  event_type :: string
  attrs :: "(string \<times> pyval) list"

definition Event_init :: "string \<Rightarrow> (string \<times> pyval) list \<Rightarrow> Event" where
  "Event_init type kwds = \<lparr>event_type = type, attrs = kwds\<rparr>"

text \<open>
  \<open>MouseEvent\<close>: the attributes \<^verbatim>\<open>_pos\<close>, \<^verbatim>\<open>_button\<close>, \<^verbatim>\<open>_modifiers\<close>, \<^verbatim>\<open>_delta\<close> and \<^verbatim>\<open>native\<close>.
\<close>

record MouseEvent = Event +
  mouse_pos :: pyval
  mouse_button :: pyval
  mouse_modifiers :: pyval
  mouse_delta :: pyval
  mouse_native :: pyval

text \<open>A keyword parameter with a default: \<open>None\<close> when the caller leaves it out.\<close>

definition dflt :: "pyval \<Rightarrow> pyval option \<Rightarrow> pyval" where
  "dflt d a = (case a of None \<Rightarrow> d | Some v \<Rightarrow> v)"

text \<open>
  \<^verbatim>\<open>__init__(self, type, pos=None, button=None, modifiers=None, delta=0, native=None, **kwds)\<close>
\<close>

definition MouseEvent_init ::
  "string \<Rightarrow> pyval option \<Rightarrow> pyval option \<Rightarrow> pyval option \<Rightarrow> pyval option \<Rightarrow> pyval option \<Rightarrow>
   (string \<times> pyval) list \<Rightarrow> error + MouseEvent" where
  "MouseEvent_init type pos_arg button_arg modifiers_arg delta_arg native_arg kwds =
     (let pos = dflt PNone pos_arg;
          button = dflt PNone button_arg;
          modifiers = dflt PNone modifiers_arg;
          delta = dflt (PInt 0) delta_arg;
          native = dflt PNone native_arg;
          base = Event_init type kwds
      in
        bindE (if pos = PNone then Inr (PTuple [PInt 0, PInt 0])
               else bindE (py_getitem pos 0) (\<lambda>a.
                    bindE (py_getitem pos 1) (\<lambda>b. Inr (PTuple [a, b])))) (\<lambda>p.
        bindE (if button \<noteq> PNone then bindE (py_int button) (\<lambda>n. Inr (PInt n))
               else Inr PNone) (\<lambda>b.
        bindE (py_tuple (if py_truth modifiers then modifiers else PTuple [])) (\<lambda>m.
        bindE (py_int delta) (\<lambda>d.
          Inr \<lparr>event_type = event_type base, attrs = attrs base,
               mouse_pos = p, mouse_button = b, mouse_modifiers = m,
               mouse_delta = PInt d, mouse_native = native\<rparr>)))))"

text \<open>The properties \<^verbatim>\<open>pos\<close>, \<^verbatim>\<open>button\<close>, \<^verbatim>\<open>modifiers\<close> and \<^verbatim>\<open>delta\<close>.\<close>

definition pos :: "MouseEvent \<Rightarrow> pyval" where
  "pos self = mouse_pos self"

definition button :: "MouseEvent \<Rightarrow> pyval" where
  "button self = mouse_button self"

definition modifiers :: "MouseEvent \<Rightarrow> pyval" where
  "modifiers self = mouse_modifiers self"

definition delta :: "MouseEvent \<Rightarrow> pyval" where
  "delta self = mouse_delta self"

text \<open>\<open>ResizeEvent\<close>: the attributes \<^verbatim>\<open>size\<close> and \<^verbatim>\<open>native\<close>.\<close>

record ResizeEvent = Event +
  resize_size :: pyval
  resize_native :: pyval

text \<open>\<^verbatim>\<open>__init__(self, type, size, native=None, **kwds)\<close>\<close>

definition ResizeEvent_init ::
  "string \<Rightarrow> pyval \<Rightarrow> pyval option \<Rightarrow> (string \<times> pyval) list \<Rightarrow> error + ResizeEvent" where
  "ResizeEvent_init type size_arg native_arg kwds =
     (let native = dflt PNone native_arg;
          base = Event_init type kwds
      in
        bindE (py_tuple size_arg) (\<lambda>s.
          Inr \<lparr>event_type = event_type base, attrs = attrs base,
               resize_size = s, resize_native = native\<rparr>))"


section \<open>A small toolkit to run the definitions on\<close>

text \<open>
  The state of this backend is the geometry of its window, a list \<open>[x, y, w, h]\<close>; moving
  and resizing replace the two values they are about, every method returns. The
  application counts the backends it has made and opens each window at
  \<open>(0, 0, 640, 480)\<close>.
\<close>

fun window_meth :: "call \<Rightarrow> pyval list \<Rightarrow> (error + pyval) \<times> pyval list" where
  "window_meth Call_get_geometry g = (Inr (PTuple g), g)"
| "window_meth (Call_set_location x y) g = (Inr PNone, [x, y] @ drop 2 g)"
| "window_meth (Call_set_size w h) g = (Inr PNone, take 2 g @ [w, h])"
| "window_meth Call_get_native_canvas g = (Inr (PObj 0), g)"
| "window_meth c g = (Inr PNone, g)"

definition window_app :: "(nat, pyval list) Application" where
  "window_app =
     \<lparr>astate = 0,
      use = (\<lambda>a. (Inr PNone, a)),
      app_native = (\<lambda>a. (Inr (PObj 1), a)),
      backend_module_CanvasBackend =
        (\<lambda>args kwargs a.
           (Inr \<lparr>bstate = [PInt 0, PInt 0, PInt 640, PInt 480], bmeth = window_meth\<rparr>,
            Suc a))\<rparr>"

text \<open>A realized Canvas whose window has the geometry \<open>g\<close>, and an unrealized one.\<close>

definition window_canvas :: "pyval list \<Rightarrow> (nat, pyval list) Canvas" where
  "window_canvas g =
     \<lparr>events = EmitterGroup, canvas_args = None, canvas_kwargs = None,
      canvas_backend = Some \<lparr>bstate = g, bmeth = window_meth\<rparr>,
      canvas_title = [], canvas_app = window_app, calls = [], instantiated = 1\<rparr>"

definition unrealized_canvas :: "(nat, pyval list) Canvas" where
  "unrealized_canvas =
     \<lparr>events = EmitterGroup, canvas_args = Some [], canvas_kwargs = Some [],
      canvas_backend = None,
      canvas_title = [], canvas_app = window_app, calls = [], instantiated = 0\<rparr>"

text \<open>An application whose backend class is \<open>CanvasBackend\<close> itself, and a Canvas on it.\<close>

definition abstract_app :: "(nat, CanvasBackend) Application" where
  "abstract_app =
     \<lparr>astate = 0,
      use = (\<lambda>a. (Inr PNone, a)),
      app_native = (\<lambda>a. (Inr (PObj 1), a)),
      backend_module_CanvasBackend =
        (\<lambda>args kwargs a.
           (Inr (CanvasBackend_object (CanvasBackend_init (Suc (Suc a)) PNone args kwargs)),
            Suc a))\<rparr>"

definition abstract_canvas :: "(nat, CanvasBackend) Canvas" where
  "abstract_canvas =
     \<lparr>events = EmitterGroup, canvas_args = None, canvas_kwargs = None,
      canvas_backend = Some (CanvasBackend_object (CanvasBackend_init 2 PNone [] [])),
      canvas_title = [], canvas_app = abstract_app, calls = [], instantiated = 1\<rparr>"

text \<open>
  A backend for a widget that sits inside another one: it is like the window above, but
  it cannot be moved and says so.
\<close>

fun widget_meth :: "call \<Rightarrow> pyval list \<Rightarrow> (error + pyval) \<times> pyval list" where
  "widget_meth (Call_set_location x y) g = (Inl NotImplementedError, g)"
| "widget_meth c g = window_meth c g"

definition widget_canvas :: "pyval list \<Rightarrow> (nat, pyval list) Canvas" where
  "widget_canvas g =
     \<lparr>events = EmitterGroup, canvas_args = None, canvas_kwargs = None,
      canvas_backend = Some \<lparr>bstate = g, bmeth = widget_meth\<rparr>,
      canvas_title = [], canvas_app = window_app, calls = [], instantiated = 1\<rparr>"


section \<open>Facts about the primitives\<close>

lemma py_eq_None [simp]: "py_eq PNone v = (v = PNone)"
  by (cases v) simp_all

lemma py_eq_tuple_left:
  "py_eq (PTuple xs) v \<Longrightarrow> \<exists>ys. v = PTuple ys \<and> py_eq_list xs ys"
  by (cases v) simp_all

lemma py_eq_list_take: "py_eq_list xs ys \<Longrightarrow> py_eq_list (take n xs) (take n ys)"
proof (induction xs arbitrary: ys n)
  case Nil
  then show ?case by (cases ys) simp_all
next
  case (Cons x xs)
  then show ?case by (cases ys; cases n) simp_all
qed

lemma py_eq_list_drop: "py_eq_list xs ys \<Longrightarrow> py_eq_list (drop n xs) (drop n ys)"
proof (induction xs arbitrary: ys n)
  case Nil
  then show ?case by (cases ys) simp_all
next
  case (Cons x xs)
  then show ?case by (cases ys; cases n) simp_all
qed

lemma invoke_calls: "calls (snd (invoke b c self)) = calls self @ [c]"
  by (simp add: invoke_def split: prod.splits)

lemma snd_discard: "snd (discard p) = snd p"
  by (simp add: discard_def split: prod.splits sum.splits)

lemma invoke_result:
  "invoke b c self =
     (fst (bmeth b c (bstate b)),
      self\<lparr>canvas_backend := Some (b\<lparr>bstate := snd (bmeth b c (bstate b))\<rparr>),
           calls := calls self @ [c]\<rparr>)"
  by (simp add: invoke_def split_beta)

lemma discard_pair:
  "discard (r, c) = (case r of Inl e \<Rightarrow> Inl e | Inr v \<Rightarrow> Inr (), c)"
  by (simp add: discard_def split: sum.splits)


section \<open>Setting the geometry\<close>

text \<open>
  C1, as amended. Let the Canvas be realized and the geometry be set to a tuple
  \<open>(x, y, w, h)\<close>. The setter calls \<open>get_geometry\<close> once; when that raises, so does the
  setter. When it returns a sequence \<open>cur\<close>, with position \<open>cur[:2]\<close> and size \<open>cur[2:]\<close>,
  the setter calls \<open>set_location x y\<close> exactly when \<open>(x, y)\<close> differs from the position and
  neither \<open>x\<close> nor \<open>y\<close> is \<open>None\<close>; when that call raises, the setter raises with it and
  does not call \<open>set_size\<close>. Otherwise it calls \<open>set_size w h\<close> exactly when \<open>(w, h)\<close>
  differs from the size and neither \<open>w\<close> nor \<open>h\<close> is \<open>None\<close>, and raises when that call
  does. In each case the result of the setter, the state the backend is left in by the
  methods called and the calls made are as stated; the last conjunct gives the calls in
  one formula. An unchanged position with a changed size gives one resize and no move.
\<close>

theorem geometry_four_values:
  fixes self :: "('a, 's) Canvas"
  defines "mv \<equiv> \<lambda>x y cpos. py_ne (PTuple [x, y]) cpos \<and> x \<noteq> PNone \<and> y \<noteq> PNone"
    and "done \<equiv> \<lambda>(self :: ('a, 's) Canvas) b s cs.
           self\<lparr>canvas_backend := Some (b\<lparr>bstate := s\<rparr>), calls := calls self @ cs\<rparr>"
  assumes "canvas_backend self = Some b"
  shows "(bmeth b Call_get_geometry (bstate b) = (Inl e, s1) \<longrightarrow>
            geometry_set (PTuple [x, y, w, h]) self = (Inl e, done self b s1 [Call_get_geometry]))
    \<and> (bmeth b Call_get_geometry (bstate b) = (Inr cur, s1)
        \<and> py_getslice cur 0 (Some 2) = Inr cpos \<and> py_getslice cur 2 None = Inr csize \<longrightarrow>
         (\<not> mv x y cpos \<and> \<not> mv w h csize \<longrightarrow>
            geometry_set (PTuple [x, y, w, h]) self =
              (Inr (), done self b s1 [Call_get_geometry]))
       \<and> (\<not> mv x y cpos \<and> mv w h csize \<and> bmeth b (Call_set_size w h) s1 = (r, s3) \<longrightarrow>
            geometry_set (PTuple [x, y, w, h]) self =
              (case r of Inl e \<Rightarrow> Inl e | Inr v \<Rightarrow> Inr (),
               done self b s3 [Call_get_geometry, Call_set_size w h]))
       \<and> (mv x y cpos \<and> bmeth b (Call_set_location x y) s1 = (Inl e, s2) \<longrightarrow>
            geometry_set (PTuple [x, y, w, h]) self =
              (Inl e, done self b s2 [Call_get_geometry, Call_set_location x y]))
       \<and> (mv x y cpos \<and> bmeth b (Call_set_location x y) s1 = (Inr v, s2)
           \<and> \<not> mv w h csize \<longrightarrow>
            geometry_set (PTuple [x, y, w, h]) self =
              (Inr (), done self b s2 [Call_get_geometry, Call_set_location x y]))
       \<and> (mv x y cpos \<and> bmeth b (Call_set_location x y) s1 = (Inr v, s2)
           \<and> mv w h csize \<and> bmeth b (Call_set_size w h) s2 = (r, s3) \<longrightarrow>
            geometry_set (PTuple [x, y, w, h]) self =
              (case r of Inl e \<Rightarrow> Inl e | Inr v \<Rightarrow> Inr (),
               done self b s3
                 [Call_get_geometry, Call_set_location x y, Call_set_size w h]))
       \<and> calls (snd (geometry_set (PTuple [x, y, w, h]) self)) =
           calls self @ [Call_get_geometry]
             @ (if mv x y cpos then [Call_set_location x y] else [])
             @ (if mv w h csize
                   \<and> \<not> (mv x y cpos \<and> isl (fst (bmeth b (Call_set_location x y) s1)))
                then [Call_set_size w h] else []))"
  using assms(3) unfolding mv_def done_def
  by (auto simp: geometry_set_def backend_call_def invoke_def location_test_def size_test_def
      call_items_def bindE_def slice_def discard_def py_ne_def
      split: prod.splits sum.splits)

theorem geometry_four_values_witness:
  "geometry_set (PTuple [PInt 10, PInt 10, PInt 300, PInt 200])
       (window_canvas [PInt 10, PInt 10, PInt 100, PInt 100]) =
     (Inr (), window_canvas [PInt 10, PInt 10, PInt 300, PInt 200]
                \<lparr>calls := [Call_get_geometry, Call_set_size (PInt 300) (PInt 200)]\<rparr>)
   \<and> geometry_set (PTuple [PInt 20, PInt 30, PInt 300, PInt 200])
       (window_canvas [PInt 10, PInt 10, PInt 100, PInt 100]) =
     (Inr (), window_canvas [PInt 20, PInt 30, PInt 300, PInt 200]
                \<lparr>calls := [Call_get_geometry, Call_set_location (PInt 20) (PInt 30),
                            Call_set_size (PInt 300) (PInt 200)]\<rparr>)
   \<and> geometry_set (PTuple [PInt 20, PInt 30, PNone, PInt 200])
       (window_canvas [PInt 10, PInt 10, PInt 100, PInt 100]) =
     (Inr (), window_canvas [PInt 20, PInt 30, PInt 100, PInt 100]
                \<lparr>calls := [Call_get_geometry, Call_set_location (PInt 20) (PInt 30)]\<rparr>)
   \<and> geometry_set (PTuple [PInt 20, PInt 30, PInt 300, PInt 200])
       (widget_canvas [PInt 10, PInt 10, PInt 100, PInt 100]) =
     (Inl NotImplementedError, widget_canvas [PInt 10, PInt 10, PInt 100, PInt 100]
                \<lparr>calls := [Call_get_geometry, Call_set_location (PInt 20) (PInt 30)]\<rparr>)
   \<and> geometry_set (PTuple [PInt 20, PInt 30, PInt 300, PInt 200]) abstract_canvas =
     (Inl NotImplementedError, abstract_canvas\<lparr>calls := [Call_get_geometry]\<rparr>)"
  using geometry_four_values [where self = "window_canvas [PInt 10, PInt 10, PInt 100, PInt 100]"
      and b = "\<lparr>bstate = [PInt 10, PInt 10, PInt 100, PInt 100], bmeth = window_meth\<rparr>"
      and cur = "PTuple [PInt 10, PInt 10, PInt 100, PInt 100]"
      and ?s1.0 = "[PInt 10, PInt 10, PInt 100, PInt 100]"
      and cpos = "PTuple [PInt 10, PInt 10]" and csize = "PTuple [PInt 100, PInt 100]"
      and x = "PInt 10" and y = "PInt 10" and w = "PInt 300" and h = "PInt 200"
      and r = "Inr PNone" and ?s3.0 = "[PInt 10, PInt 10, PInt 300, PInt 200]"]
    geometry_four_values [where self = "window_canvas [PInt 10, PInt 10, PInt 100, PInt 100]"
      and b = "\<lparr>bstate = [PInt 10, PInt 10, PInt 100, PInt 100], bmeth = window_meth\<rparr>"
      and cur = "PTuple [PInt 10, PInt 10, PInt 100, PInt 100]"
      and ?s1.0 = "[PInt 10, PInt 10, PInt 100, PInt 100]"
      and cpos = "PTuple [PInt 10, PInt 10]" and csize = "PTuple [PInt 100, PInt 100]"
      and x = "PInt 20" and y = "PInt 30" and w = "PInt 300" and h = "PInt 200"
      and v = PNone and ?s2.0 = "[PInt 20, PInt 30, PInt 100, PInt 100]"
      and r = "Inr PNone" and ?s3.0 = "[PInt 20, PInt 30, PInt 300, PInt 200]"]
    geometry_four_values [where self = "window_canvas [PInt 10, PInt 10, PInt 100, PInt 100]"
      and b = "\<lparr>bstate = [PInt 10, PInt 10, PInt 100, PInt 100], bmeth = window_meth\<rparr>"
      and cur = "PTuple [PInt 10, PInt 10, PInt 100, PInt 100]"
      and ?s1.0 = "[PInt 10, PInt 10, PInt 100, PInt 100]"
      and cpos = "PTuple [PInt 10, PInt 10]" and csize = "PTuple [PInt 100, PInt 100]"
      and x = "PInt 20" and y = "PInt 30" and w = "PNone" and h = "PInt 200"
      and v = PNone and ?s2.0 = "[PInt 20, PInt 30, PInt 100, PInt 100]"]
    geometry_four_values [where self = "widget_canvas [PInt 10, PInt 10, PInt 100, PInt 100]"
      and b = "\<lparr>bstate = [PInt 10, PInt 10, PInt 100, PInt 100], bmeth = widget_meth\<rparr>"
      and cur = "PTuple [PInt 10, PInt 10, PInt 100, PInt 100]"
      and ?s1.0 = "[PInt 10, PInt 10, PInt 100, PInt 100]"
      and cpos = "PTuple [PInt 10, PInt 10]" and csize = "PTuple [PInt 100, PInt 100]"
      and x = "PInt 20" and y = "PInt 30" and w = "PInt 300" and h = "PInt 200"
      and e = NotImplementedError and ?s2.0 = "[PInt 10, PInt 10, PInt 100, PInt 100]"]
    geometry_four_values [where self = abstract_canvas
      and b = "CanvasBackend_object (CanvasBackend_init 2 PNone [] [])"
      and ?s1.0 = "CanvasBackend_init 2 PNone [] []"
      and x = "PInt 20" and y = "PInt 30" and w = "PInt 300" and h = "PInt 200"
      and e = NotImplementedError]
  by (simp add: window_canvas_def widget_canvas_def abstract_canvas_def slice_def py_ne_def
      CanvasBackend_object_def vispy_get_geometry_def)

text \<open>
  C1 as stated fails on a backend whose \<open>set_location\<close> raises: the requested size
  \<open>(300, 200)\<close> differs from the current \<open>(100, 100)\<close> and has no \<open>None\<close>, and yet
  \<open>set_size\<close> is not called, since the exception of the move has left the setter.
\<close>

theorem geometry_four_values_counterexample:
  "geometry_set (PTuple [PInt 20, PInt 30, PInt 300, PInt 200])
       (widget_canvas [PInt 10, PInt 10, PInt 100, PInt 100]) =
     (Inl NotImplementedError, widget_canvas [PInt 10, PInt 10, PInt 100, PInt 100]
                \<lparr>calls := [Call_get_geometry, Call_set_location (PInt 20) (PInt 30)]\<rparr>)
   \<and> py_ne (PTuple [PInt 300, PInt 200]) (PTuple [PInt 100, PInt 100])
   \<and> Call_set_size (PInt 300) (PInt 200) \<notin>
       set (calls (snd (geometry_set (PTuple [PInt 20, PInt 30, PInt 300, PInt 200])
                          (widget_canvas [PInt 10, PInt 10, PInt 100, PInt 100]))))"
  by (simp add: geometry_set_def backend_call_def invoke_def location_test_def size_test_def
      call_items_def bindE_def slice_def py_ne_def widget_canvas_def)

text \<open>
  C2, as amended. When the backend reports a current geometry equal to the tuple
  \<open>(x, y, w, h)\<close>, setting the geometry to that tuple returns and calls neither
  \<open>set_location\<close> nor \<open>set_size\<close>; the one backend call it makes is the \<open>get_geometry\<close> query.
\<close>

theorem geometry_unchanged:
  assumes args: "args = PTuple [x, y, w, h]"
    and realized: "canvas_backend self = Some b"
    and cur: "bmeth b Call_get_geometry (bstate b) = (Inr cur, s1)"
    and same: "py_eq args cur"
  shows "fst (geometry_set args self) = Inr () \<and>
         calls (snd (geometry_set args self)) = calls self @ [Call_get_geometry]"
proof -
  from same args obtain ys where ys: "cur = PTuple ys" "py_eq_list [x, y, w, h] ys"
    using py_eq_tuple_left by blast
  have p: "py_eq_list (take 2 [x, y, w, h]) (take 2 ys)"
    using ys(2) by (rule py_eq_list_take)
  have s: "py_eq_list (drop 2 [x, y, w, h]) (drop 2 ys)"
    using ys(2) by (rule py_eq_list_drop)
  have l: "location_test args cur = Inr False"
    using p by (simp add: location_test_def bindE_def slice_def py_ne_def args ys(1))
  have z: "size_test args cur = Inr False"
    using s by (simp add: size_test_def bindE_def slice_def py_ne_def args ys(1))
  show ?thesis
    using realized cur l z
    by (simp add: geometry_set_def backend_call_def invoke_def args)
qed

theorem geometry_unchanged_witness:
  "fst (geometry_set (PTuple [PInt 10, PInt 10, PInt 100, PInt 100])
          (window_canvas [PInt 10, PInt 10, PInt 100, PInt 100])) = Inr () \<and>
   calls (snd (geometry_set (PTuple [PInt 10, PInt 10, PInt 100, PInt 100])
          (window_canvas [PInt 10, PInt 10, PInt 100, PInt 100]))) = [Call_get_geometry]"
  using geometry_unchanged [of "PTuple [PInt 10, PInt 10, PInt 100, PInt 100]"
      "PInt 10" "PInt 10" "PInt 100" "PInt 100"
      "window_canvas [PInt 10, PInt 10, PInt 100, PInt 100]"
      "\<lparr>bstate = [PInt 10, PInt 10, PInt 100, PInt 100], bmeth = window_meth\<rparr>"
      "PTuple [PInt 10, PInt 10, PInt 100, PInt 100]"
      "[PInt 10, PInt 10, PInt 100, PInt 100]"]
  by (simp add: window_canvas_def)

text \<open>
  C2 as stated fails: with the current geometry \<open>(10, 10, 100, 100)\<close>, setting the geometry
  to \<open>(10, 10, 100, 100)\<close> does call the backend, namely to read the geometry.
\<close>

theorem geometry_unchanged_counterexample:
  "calls (snd (geometry_set (PTuple [PInt 10, PInt 10, PInt 100, PInt 100])
          (window_canvas [PInt 10, PInt 10, PInt 100, PInt 100])))
     \<noteq> calls (window_canvas [PInt 10, PInt 10, PInt 100, PInt 100])"
  by (simp add: geometry_set_def backend_call_def invoke_def location_test_def size_test_def
      bindE_def slice_def py_ne_def window_canvas_def)

text \<open>
  C3, as amended. An argument whose length is neither 2 nor 4 makes the setter raise
  \<open>ValueError\<close> with the message \<^verbatim>\<open>Setting geometry requires 2 or 4 values.\<close>; the Canvas
  and its backend are as before and no backend method has been called.
\<close>

theorem geometry_bad_length:
  assumes "py_len args = Inr n" and "n \<noteq> 2" and "n \<noteq> 4"
  shows "geometry_set args self =
           (Inl (ValueError ''Setting geometry requires 2 or 4 values.''), self)"
  using assms by (simp add: geometry_set_def)

theorem geometry_bad_length_witness:
  "geometry_set (PTuple [PInt 1, PInt 2, PInt 3]) (window_canvas [PInt 0, PInt 0, PInt 1, PInt 1]) =
     (Inl (ValueError ''Setting geometry requires 2 or 4 values.''),
      window_canvas [PInt 0, PInt 0, PInt 1, PInt 1])"
  using geometry_bad_length [of "PTuple [PInt 1, PInt 2, PInt 3]" 3
      "window_canvas [PInt 0, PInt 0, PInt 1, PInt 1]"]
  by simp

text \<open>C3 as stated fails: the message of the error is not the one the claim gives.\<close>

theorem geometry_bad_length_counterexample:
  "fst (geometry_set (PTuple [PInt 1, PInt 2, PInt 3])
          (window_canvas [PInt 0, PInt 0, PInt 1, PInt 1]))
     \<noteq> Inl (ValueError ''geometry requires exactly 2 or 4 values'')"
  by (simp add: geometry_set_def)

text \<open>
  C10. On a realized Canvas, setting the geometry to a sequence of two values \<open>x\<close>, \<open>y\<close>,
  \<open>None\<close> or not, makes one backend call, \<open>set_location x y\<close> with both values as they
  are; the current geometry is not read. The setter returns when the method does and
  raises what it raises, and the backend is in the state the method has left.
\<close>

theorem geometry_two_values:
  assumes "canvas_backend self = Some b"
    and "args = PTuple [x, y] \<or> args = PList [x, y]"
  shows "geometry_set args self =
           (case fst (bmeth b (Call_set_location x y) (bstate b)) of
              Inl e \<Rightarrow> Inl e | Inr v \<Rightarrow> Inr (),
            self\<lparr>canvas_backend :=
                   Some (b\<lparr>bstate := snd (bmeth b (Call_set_location x y) (bstate b))\<rparr>),
                 calls := calls self @ [Call_set_location x y]\<rparr>)
         \<and> calls (snd (geometry_set args self)) = calls self @ [Call_set_location x y]"
proof -
  have "geometry_set args self = discard (invoke b (Call_set_location x y) self)"
    using assms by (auto simp: geometry_set_def)
  then show ?thesis
    by (simp add: invoke_result discard_pair)
qed

theorem geometry_two_values_witness:
  "geometry_set (PTuple [PNone, PInt 5]) (window_canvas [PInt 10, PInt 10, PInt 100, PInt 100]) =
     (Inr (), window_canvas [PNone, PInt 5, PInt 100, PInt 100]
                \<lparr>calls := [Call_set_location PNone (PInt 5)]\<rparr>)
   \<and> geometry_set (PList [PInt 7, PNone]) (widget_canvas [PInt 10, PInt 10, PInt 100, PInt 100]) =
     (Inl NotImplementedError, widget_canvas [PInt 10, PInt 10, PInt 100, PInt 100]
                \<lparr>calls := [Call_set_location (PInt 7) PNone]\<rparr>)"
  using geometry_two_values [of "window_canvas [PInt 10, PInt 10, PInt 100, PInt 100]"
      "\<lparr>bstate = [PInt 10, PInt 10, PInt 100, PInt 100], bmeth = window_meth\<rparr>"
      "PTuple [PNone, PInt 5]" PNone "PInt 5"]
    geometry_two_values [of "widget_canvas [PInt 10, PInt 10, PInt 100, PInt 100]"
      "\<lparr>bstate = [PInt 10, PInt 10, PInt 100, PInt 100], bmeth = widget_meth\<rparr>"
      "PList [PInt 7, PNone]" "PInt 7" PNone]
  by (simp add: window_canvas_def widget_canvas_def)


section \<open>The title\<close>

lemma invoke_titleD: "invoke b c s = (r, s') \<Longrightarrow> canvas_title s' = canvas_title s"
  by (auto simp: invoke_def split: prod.splits)

lemma backend_call_titleD: "backend_call c s = (r, s') \<Longrightarrow> canvas_title s' = canvas_title s"
  by (auto simp: backend_call_def split: option.splits dest: invoke_titleD)

lemma call_items_titleD:
  "call_items m name args i j s = (r, s') \<Longrightarrow> canvas_title s' = canvas_title s"
  by (auto simp: call_items_def split: option.splits sum.splits dest: invoke_titleD)

lemma discard_titleD:
  "discard p = (r, s') \<Longrightarrow> canvas_title s' = canvas_title (snd p)"
  by (auto simp: discard_def split: prod.splits sum.splits)

lemma create_widget_titleD:
  "create_widget s = (r, s') \<Longrightarrow> canvas_title s' = canvas_title s"
  by (auto simp: create_widget_def Let_def split: option.splits prod.splits sum.splits)

lemma geometry_set_titleD:
  assumes "geometry_set args s = (r, s')"
  shows "canvas_title s' = canvas_title s"
proof (cases "py_len args")
  case (Inl e)
  with assms show ?thesis by (simp add: geometry_set_def)
next
  case (Inr n)
  consider "n = 2" | "n = 4" | "n \<noteq> 2" "n \<noteq> 4" by blast
  then show ?thesis
  proof cases
    case 1
    with assms Inr show ?thesis
      by (auto simp: geometry_set_def invoke_titleD [OF surjective_pairing]
          split: option.splits sum.splits list.splits dest!: discard_titleD)
  next
    case 2
    obtain r1 s1 where g: "backend_call Call_get_geometry s = (r1, s1)"
      by (cases "backend_call Call_get_geometry s")
    have t1: "canvas_title s1 = canvas_title s"
      using g by (rule backend_call_titleD)
    show ?thesis
    proof (cases r1)
      case (Inl e)
      with assms Inr 2 g t1 show ?thesis by (simp add: geometry_set_def)
    next
      case cur: (Inr cur)
      show ?thesis
      proof (cases "location_test args cur")
        case (Inl e)
        with assms Inr 2 g t1 cur show ?thesis by (simp add: geometry_set_def)
      next
        case mv: (Inr mv)
        obtain r2 s2 where m: "(if mv then call_items Call_set_location ''_vispy_set_location''
              args 0 1 s1 else (Inr PNone, s1)) = (r2, s2)"
          by (cases "if mv then call_items Call_set_location ''_vispy_set_location''
              args 0 1 s1 else (Inr PNone, s1)")
        have t2: "canvas_title s2 = canvas_title s"
          using m t1 by (auto split: if_splits dest: call_items_titleD)
        show ?thesis
        proof (cases r2)
          case (Inl e)
          with assms Inr 2 g cur mv m t2 show ?thesis by (simp add: geometry_set_def)
        next
          case r2: (Inr v)
          show ?thesis
          proof (cases "size_test args cur")
            case (Inl e)
            with assms Inr 2 g cur mv m t2 r2 show ?thesis by (simp add: geometry_set_def)
          next
            case rs: (Inr rs)
            with assms Inr 2 g cur mv m t2 r2 show ?thesis
              by (auto simp: geometry_set_def call_items_titleD [OF surjective_pairing]
                  split: if_splits dest!: discard_titleD)
          qed
        qed
      qed
    qed
  next
    case 3
    with assms Inr show ?thesis by (simp add: geometry_set_def)
  qed
qed

lemma title_set_title: "canvas_title (snd (title_set t self)) = t"
  using backend_call_titleD [OF surjective_pairing, of "Call_set_title t" "self\<lparr>canvas_title := t\<rparr>"]
  by (simp add: title_set_def Let_def snd_discard)

lemma title_set_calls:
  "canvas_backend self \<noteq> None \<Longrightarrow>
     calls (snd (title_set t self)) = calls self @ [Call_set_title t]"
  by (auto simp: title_set_def Let_def snd_discard backend_call_def invoke_calls)

lemma apply_op_title:
  "canvas_title (apply_op x self) = last_title [x] (canvas_title self)"
proof (cases x)
  case Op_create_widget
  then show ?thesis using create_widget_titleD [OF surjective_pairing, of self] by simp
next
  case (Op_geometry_set args)
  then show ?thesis using geometry_set_titleD [OF surjective_pairing, of args self] by simp
next
  case (Op_title_set t)
  then show ?thesis by (simp add: title_set_title)
qed (simp_all add: backend_call_titleD [OF surjective_pairing]
      native_get_def geometry_get_def Canvas_show_def Canvas_update_def Canvas_close_def
      snd_discard)

lemma last_title_Cons: "last_title (x # ops) t = last_title ops (last_title [x] t)"
  by (cases x) simp_all

lemma run_title: "canvas_title (run ops self) = last_title ops (canvas_title self)"
proof (induction ops arbitrary: self)
  case Nil
  show ?case by simp
next
  case (Cons x ops)
  have "canvas_title (run (x # ops) self) = last_title ops (canvas_title (apply_op x self))"
    using Cons.IH by simp
  also have "\<dots> = last_title (x # ops) (canvas_title self)"
    by (simp add: apply_op_title last_title_Cons [of x ops])
  finally show ?case .
qed

lemma Canvas_init_title: "Canvas_init d args app cw kwargs = Inr self \<Longrightarrow> canvas_title self = []"
  by (auto simp: Canvas_init_def Let_def split: if_splits prod.splits sum.splits
      dest: create_widget_titleD)


lemma title_set_result:
  "canvas_backend self = Some b \<Longrightarrow>
     title_set t self =
       (case fst (bmeth b (Call_set_title t) (bstate b)) of
          Inl e \<Rightarrow> Inl e | Inr v \<Rightarrow> Inr (),
        self\<lparr>canvas_title := t,
             canvas_backend :=
               Some (b\<lparr>bstate := snd (bmeth b (Call_set_title t) (bstate b))\<rparr>),
             calls := calls self @ [Call_set_title t]\<rparr>)"
  by (simp add: title_set_def Let_def backend_call_def invoke_result discard_pair)

text \<open>
  C5. Whatever the backend does, returns or raises, and also while there is none: after
  any sequence of operations on a Canvas, reading \<open>title\<close> gives the value most recently
  passed to the title setter (the title from before when the sequence sets none, the empty
  string for a new Canvas). The setter stores the new title in the cache before it turns
  to the backend, so the cache holds it also when the backend raises, and on a realized
  Canvas it calls \<open>set_title\<close> with the value each time, also when the value equals the
  cached one: the setter returns when the method does and raises what it raises, and
  the backend is in the state the method has left.
\<close>

theorem title_cache:
  "title_get (run ops self) = last_title ops (title_get self)
   \<and> title_get (snd (title_set t self)) = t
   \<and> (canvas_backend self \<noteq> None \<longrightarrow>
        calls (snd (title_set t self)) = calls self @ [Call_set_title t])
   \<and> (Canvas_init d args app cw kwargs = Inr self \<longrightarrow> title_get self = [])
   \<and> (canvas_backend self = Some b \<longrightarrow>
        title_set t self =
          (case fst (bmeth b (Call_set_title t) (bstate b)) of
             Inl e \<Rightarrow> Inl e | Inr v \<Rightarrow> Inr (),
           self\<lparr>canvas_title := t,
                canvas_backend :=
                  Some (b\<lparr>bstate := snd (bmeth b (Call_set_title t) (bstate b))\<rparr>),
                calls := calls self @ [Call_set_title t]\<rparr>))"
  by (simp add: title_get_def run_title title_set_title Canvas_init_title title_set_calls
      title_set_result)

theorem title_cache_witness:
  "title_get (run [Op_title_set ''a'', Op_geometry_get, Op_title_set ''b'', Op_close]
                abstract_canvas) = ''b''
   \<and> title_get (snd (title_set [] abstract_canvas)) = []
   \<and> calls (snd (title_set [] abstract_canvas)) = [Call_set_title []]
   \<and> title_set [] abstract_canvas =
       (Inl NotImplementedError, abstract_canvas\<lparr>calls := [Call_set_title []]\<rparr>)
   \<and> title_set ''plot'' abstract_canvas =
       (Inl NotImplementedError,
        abstract_canvas\<lparr>canvas_title := ''plot'', calls := [Call_set_title ''plot'']\<rparr>)
   \<and> title_set ''plot'' (window_canvas [PInt 0, PInt 0, PInt 640, PInt 480]) =
       (Inr (), window_canvas [PInt 0, PInt 0, PInt 640, PInt 480]
                  \<lparr>canvas_title := ''plot'', calls := [Call_set_title ''plot'']\<rparr>)
   \<and> Canvas_init window_app [] None None [] =
       Inr (window_canvas [PInt 0, PInt 0, PInt 640, PInt 480]
              \<lparr>canvas_app := window_app\<lparr>astate := 1\<rparr>\<rparr>)
   \<and> title_get (window_canvas [PInt 0, PInt 0, PInt 640, PInt 480]
              \<lparr>canvas_app := window_app\<lparr>astate := 1\<rparr>\<rparr>) = []"
  using title_cache [where ops = "[Op_title_set ''a'', Op_geometry_get, Op_title_set ''b'', Op_close]"
      and self = abstract_canvas and t = "[]"
      and b = "CanvasBackend_object (CanvasBackend_init 2 PNone [] [])"]
    title_cache [where ops = "[]" and self = abstract_canvas and t = "''plot''"
      and b = "CanvasBackend_object (CanvasBackend_init 2 PNone [] [])"]
    title_cache [where ops = "[]" and self = "window_canvas [PInt 0, PInt 0, PInt 640, PInt 480]"
      and t = "''plot''"
      and b = "\<lparr>bstate = [PInt 0, PInt 0, PInt 640, PInt 480], bmeth = window_meth\<rparr>"]
    title_cache [where ops = "[]"
      and self = "window_canvas [PInt 0, PInt 0, PInt 640, PInt 480]
              \<lparr>canvas_app := window_app\<lparr>astate := 1\<rparr>\<rparr>"
      and t = "[]" and d = window_app and args = "[]" and app = None and cw = None
      and kwargs = "[]"]
  by (simp add: abstract_canvas_def title_get_def CanvasBackend_object_def vispy_set_title_def
      Canvas_init_def create_widget_def window_app_def window_canvas_def)


section \<open>Realization\<close>

lemma create_widget_realized:
  "canvas_backend self \<noteq> None \<Longrightarrow> create_widget self = (Inr (), self)"
  by (auto simp: create_widget_def)

lemma create_widget_times_realized:
  "canvas_backend self \<noteq> None \<Longrightarrow> create_widget_times n self = (Inr (), self)"
  by (induction n) (simp_all add: create_widget_realized)

lemma create_widget_first:
  assumes "canvas_backend self = None" and "create_widget self = (Inr (), self')"
  shows "instantiated self' = Suc (instantiated self) \<and> canvas_backend self' \<noteq> None
         \<and> canvas_args self' = None \<and> canvas_kwargs self' = None"
  using assms
  by (auto simp: create_widget_def Let_def split: prod.splits sum.splits option.splits)


text \<open>
  C6. \<open>create_widget\<close> on a Canvas that has its backend returns and changes nothing, any
  number of times. On a Canvas without backend, when the first call succeeds, the backend
  class has been instantiated once by it, the backend is present and \<open>_args\<close> and
  \<open>_kwargs\<close> are gone; every further call leaves this state as it is, so after \<open>n + 1\<close> calls
  the class has still been instantiated once.
\<close>

theorem create_widget_once:
  "(canvas_backend self \<noteq> None \<longrightarrow> create_widget_times n self = (Inr (), self))
   \<and> (canvas_backend self = None \<and> create_widget self = (Inr (), self') \<longrightarrow>
        create_widget_times (Suc n) self = (Inr (), self')
        \<and> instantiated self' = Suc (instantiated self)
        \<and> canvas_backend self' \<noteq> None
        \<and> canvas_args self' = None \<and> canvas_kwargs self' = None)"
  using create_widget_first [of self self']
  by (auto simp: create_widget_times_realized)

theorem create_widget_once_witness:
  "Canvas_init window_app [PInt 7] None (Some (PBool False)) [(''show'', PBool True)]
     = Inr (unrealized_canvas\<lparr>canvas_args := Some [PInt 7],
                              canvas_kwargs := Some [(''show'', PBool True)]\<rparr>)
   \<and> create_widget_times 2 (unrealized_canvas\<lparr>canvas_args := Some [PInt 7],
                              canvas_kwargs := Some [(''show'', PBool True)]\<rparr>)
     = (Inr (), window_canvas [PInt 0, PInt 0, PInt 640, PInt 480]
                  \<lparr>canvas_app := window_app\<lparr>astate := 1\<rparr>\<rparr>)
   \<and> create_widget_times 5 (window_canvas [PInt 0, PInt 0, PInt 640, PInt 480])
     = (Inr (), window_canvas [PInt 0, PInt 0, PInt 640, PInt 480])
   \<and> instantiated (window_canvas [PInt 0, PInt 0, PInt 640, PInt 480]
                  \<lparr>canvas_app := window_app\<lparr>astate := 1\<rparr>\<rparr>) = 1
   \<and> canvas_args (window_canvas [PInt 0, PInt 0, PInt 640, PInt 480]
                  \<lparr>canvas_app := window_app\<lparr>astate := 1\<rparr>\<rparr>) = None
   \<and> canvas_kwargs (window_canvas [PInt 0, PInt 0, PInt 640, PInt 480]
                  \<lparr>canvas_app := window_app\<lparr>astate := 1\<rparr>\<rparr>) = None"
  using create_widget_once [of "unrealized_canvas\<lparr>canvas_args := Some [PInt 7],
                              canvas_kwargs := Some [(''show'', PBool True)]\<rparr>" 1
      "window_canvas [PInt 0, PInt 0, PInt 640, PInt 480]
                  \<lparr>canvas_app := window_app\<lparr>astate := 1\<rparr>\<rparr>"]
    create_widget_once [of "window_canvas [PInt 0, PInt 0, PInt 640, PInt 480]" 5]
  by (simp add: Canvas_init_def unrealized_canvas_def window_canvas_def window_app_def
      create_widget_def numeral_2_eq_2)



section \<open>Operations on an unrealized Canvas\<close>

text \<open>
  C8, as amended. On a Canvas without backend, reading \<open>native\<close>, reading \<open>geometry\<close>,
  setting \<open>geometry\<close> to a sequence of 2 or 4 values, setting \<open>title\<close>, \<open>show\<close>, \<open>update\<close> and
  \<open>close\<close> all raise the \<open>AttributeError\<close> of looking the backend's method up on \<^verbatim>\<open>None\<close>;
  no backend method is called and the Canvas is as before, but for the title cache, which
  the title setter has already written.
\<close>

theorem unrealized_operations:
  assumes "canvas_backend self = None"
  shows "native_get self = (Inl (AttributeError ''NoneType'' ''_vispy_get_native_canvas''), self)
    \<and> geometry_get self = (Inl (AttributeError ''NoneType'' ''_vispy_get_geometry''), self)
    \<and> (py_len args = Inr 2 \<longrightarrow>
         geometry_set args self = (Inl (AttributeError ''NoneType'' ''_vispy_set_location''), self))
    \<and> (py_len args = Inr 4 \<longrightarrow>
         geometry_set args self = (Inl (AttributeError ''NoneType'' ''_vispy_get_geometry''), self))
    \<and> title_set t self =
         (Inl (AttributeError ''NoneType'' ''_vispy_set_title''), self\<lparr>canvas_title := t\<rparr>)
    \<and> Canvas_show v self = (Inl (AttributeError ''NoneType'' ''_vispy_set_visible''), self)
    \<and> Canvas_update self = (Inl (AttributeError ''NoneType'' ''_vispy_update''), self)
    \<and> Canvas_close self = (Inl (AttributeError ''NoneType'' ''_vispy_close''), self)"
  using assms
  by (simp add: native_get_def geometry_get_def geometry_set_def title_set_def Canvas_show_def
      Canvas_update_def Canvas_close_def backend_call_def discard_def Let_def)

theorem unrealized_operations_witness:
  "native_get unrealized_canvas =
     (Inl (AttributeError ''NoneType'' ''_vispy_get_native_canvas''), unrealized_canvas)
   \<and> geometry_set (PTuple [PInt 1, PInt 2]) unrealized_canvas =
     (Inl (AttributeError ''NoneType'' ''_vispy_set_location''), unrealized_canvas)
   \<and> geometry_set (PTuple [PInt 1, PInt 2, PInt 3, PInt 4]) unrealized_canvas =
     (Inl (AttributeError ''NoneType'' ''_vispy_get_geometry''), unrealized_canvas)
   \<and> title_set ''plot'' unrealized_canvas =
     (Inl (AttributeError ''NoneType'' ''_vispy_set_title''),
      unrealized_canvas\<lparr>canvas_title := ''plot''\<rparr>)
   \<and> Canvas_close unrealized_canvas =
     (Inl (AttributeError ''NoneType'' ''_vispy_close''), unrealized_canvas)"
  using unrealized_operations [of unrealized_canvas "PTuple [PInt 1, PInt 2]" "''plot''" None]
    unrealized_operations [of unrealized_canvas "PTuple [PInt 1, PInt 2, PInt 3, PInt 4]" "''plot''" None]
  by (simp add: unrealized_canvas_def)


text \<open>
  C8 as stated fails: there is no error of its own for an unrealized Canvas. Setting the
  geometry to three values raises the error about the number of values, and \<open>close\<close>
  raises the interpreter's \<open>AttributeError\<close> for \<^verbatim>\<open>None\<close>.
\<close>

theorem unrealized_operations_counterexample:
  "geometry_set (PTuple [PInt 1, PInt 2, PInt 3]) unrealized_canvas =
     (Inl (ValueError ''Setting geometry requires 2 or 4 values.''), unrealized_canvas)
   \<and> fst (Canvas_close unrealized_canvas) = Inl (AttributeError ''NoneType'' ''_vispy_close'')"
  by (simp add: geometry_set_def Canvas_close_def backend_call_def discard_def
      unrealized_canvas_def)



section \<open>The defaults of CanvasBackend\<close>

text \<open>
  C9. Every method of \<open>CanvasBackend\<close> raises \<open>NotImplementedError\<close> and leaves the object
  as it is, but for \<open>_vispy_get_native_canvas\<close>, which returns the object itself.
\<close>

theorem CanvasBackend_defaults:
  "(c \<noteq> Call_get_native_canvas \<longrightarrow> CanvasBackend_meth c self = (Inl NotImplementedError, self))
   \<and> CanvasBackend_meth Call_get_native_canvas self = (Inr (PObj (ident self)), self)
   \<and> vispy_get_native_canvas self = Inr (PObj (ident self))
   \<and> vispy_set_current self = Inl NotImplementedError
   \<and> vispy_swap_buffers self = Inl NotImplementedError
   \<and> vispy_set_title self title = Inl NotImplementedError
   \<and> vispy_set_size self w h = Inl NotImplementedError
   \<and> vispy_set_location self x y = Inl NotImplementedError
   \<and> vispy_set_visible self visible = Inl NotImplementedError
   \<and> vispy_update self = Inl NotImplementedError
   \<and> vispy_close self = Inl NotImplementedError
   \<and> vispy_get_geometry self = Inl NotImplementedError"
  by (cases c)
    (simp_all add: vispy_set_current_def vispy_swap_buffers_def vispy_set_title_def
      vispy_set_size_def vispy_set_location_def vispy_set_visible_def vispy_update_def
      vispy_close_def vispy_get_geometry_def vispy_get_native_canvas_def)

theorem CanvasBackend_defaults_witness:
  "CanvasBackend_meth (Call_set_title ''plot'') (CanvasBackend_init 2 PNone [] []) =
     (Inl NotImplementedError, CanvasBackend_init 2 PNone [] [])
   \<and> CanvasBackend_meth Call_get_native_canvas (CanvasBackend_init 2 PNone [] []) =
     (Inr (PObj 2), CanvasBackend_init 2 PNone [] [])"
  using CanvasBackend_defaults [of "Call_set_title ''plot''" "CanvasBackend_init 2 PNone [] []"]
  by (simp add: CanvasBackend_init_def)



section \<open>Constructing events\<close>




text \<open>
  C4, as amended. The constructors do not check the arity of a position or a size. A
  \<open>pos\<close> with fewer than two elements makes the constructor of \<open>MouseEvent\<close> raise
  \<open>IndexError\<close>, so that there is no event to emit; a \<open>pos\<close> with two or more elements is
  accepted and its first two are the event's position. \<open>ResizeEvent\<close> accepts a sequence
  of any length as \<open>size\<close> and keeps all its elements, as a tuple.
\<close>

theorem event_arity:
  "(py_unpack p = Inr xs \<and> length xs < 2 \<longrightarrow>
      MouseEvent_init type (Some p) button_arg modifiers_arg delta_arg native_arg kwds
        = Inl IndexError)
   \<and> (py_unpack p = Inr xs \<and> 2 \<le> length xs \<longrightarrow>
      MouseEvent_init type (Some p) None None None native_arg kwds =
        Inr \<lparr>event_type = type, attrs = kwds, mouse_pos = PTuple [xs ! 0, xs ! 1],
             mouse_button = PNone, mouse_modifiers = PTuple [], mouse_delta = PInt 0,
             mouse_native = dflt PNone native_arg\<rparr>)
   \<and> (py_unpack p = Inr xs \<and> 2 \<le> length xs \<and>
      MouseEvent_init type (Some p) button_arg modifiers_arg delta_arg native_arg kwds = Inr ev
      \<longrightarrow> pos ev = PTuple [xs ! 0, xs ! 1])
   \<and> (py_unpack s = Inr ys \<longrightarrow>
      ResizeEvent_init rtype s rnative_arg rkwds =
        Inr \<lparr>event_type = rtype, attrs = rkwds, resize_size = PTuple ys,
             resize_native = dflt PNone rnative_arg\<rparr>)"
proof -
  have a: "py_unpack p = Inr xs \<Longrightarrow> p \<noteq> PNone" by auto
  have b: "py_unpack p = Inr xs \<Longrightarrow>
     py_getitem p i = (if i < length xs then Inr (xs ! i) else Inl IndexError)" for i
    by (cases p) auto
  show ?thesis
    using a b [of 0] b [of 1]
    by (auto simp: MouseEvent_init_def ResizeEvent_init_def Let_def dflt_def bindE_def
        py_tuple_def Event_init_def pos_def
        split: sum.splits if_splits)
qed

theorem event_arity_witness:
  "MouseEvent_init ''mouse_move'' (Some (PTuple [PInt 4])) None None None None [] = Inl IndexError
   \<and> MouseEvent_init ''mouse_move'' (Some (PTuple [PInt 4, PInt 5, PInt 6])) None None None None [] =
        Inr \<lparr>event_type = ''mouse_move'', attrs = [], mouse_pos = PTuple [PInt 4, PInt 5],
             mouse_button = PNone, mouse_modifiers = PTuple [], mouse_delta = PInt 0,
             mouse_native = PNone\<rparr>
   \<and> ResizeEvent_init ''resize'' (PList [PInt 800]) None [] =
        Inr \<lparr>event_type = ''resize'', attrs = [], resize_size = PTuple [PInt 800],
             resize_native = PNone\<rparr>"
  using event_arity [where p = "PTuple [PInt 4]" and xs = "[PInt 4]" and type = "''mouse_move''"
      and button_arg = None and modifiers_arg = None and delta_arg = None
      and native_arg = None and kwds = "[]"
      and s = "PList [PInt 800]" and ys = "[PInt 800]"
      and rtype = "''resize''" and rnative_arg = None and rkwds = "[]"]
    event_arity [where p = "PTuple [PInt 4, PInt 5, PInt 6]" and xs = "[PInt 4, PInt 5, PInt 6]"
      and type = "''mouse_move''"
      and button_arg = None and modifiers_arg = None and delta_arg = None
      and native_arg = None and kwds = "[]"
      and s = "PList [PInt 800]" and ys = "[PInt 800]"
      and rtype = "''resize''" and rnative_arg = None and rkwds = "[]"
      and ev = "\<lparr>event_type = ''mouse_move'', attrs = [], mouse_pos = PTuple [PInt 4, PInt 5],
             mouse_button = PNone, mouse_modifiers = PTuple [], mouse_delta = PInt 0,
             mouse_native = PNone\<rparr>"]
  by (simp add: dflt_def)


text \<open>
  C4 as stated fails: a \<open>pos\<close> and a \<open>size\<close> of three elements are both accepted.
\<close>

theorem event_arity_counterexample:
  "MouseEvent_init ''mouse_move'' (Some (PTuple [PInt 1, PInt 2, PInt 3])) None None None None [] =
        Inr \<lparr>event_type = ''mouse_move'', attrs = [], mouse_pos = PTuple [PInt 1, PInt 2],
             mouse_button = PNone, mouse_modifiers = PTuple [], mouse_delta = PInt 0,
             mouse_native = PNone\<rparr>
   \<and> ResizeEvent_init ''resize'' (PTuple [PInt 800, PInt 600, PInt 1]) None [] =
        Inr \<lparr>event_type = ''resize'', attrs = [],
             resize_size = PTuple [PInt 800, PInt 600, PInt 1], resize_native = PNone\<rparr>"
  by (simp add: MouseEvent_init_def ResizeEvent_init_def Let_def dflt_def bindE_def
      py_tuple_def Event_init_def)

end
